theory Spec2Isabelle
  imports Main "HOL-Library.Word"
begin

section \<open>Go types and values, as package reflect shows them to wmi.go\<close>

text \<open>
  The kinds of \<open>reflect.Kind\<close> whose types wmi.go never looks inside. \<open>Struct\<close>,
  \<open>Ptr\<close> and \<open>Slice\<close> are constructors of \<open>gotype\<close> below, because the code
  asks for their fields and element types. \<open>IntKind\<close> is \<open>reflect.Int\<close>.
\<close>

datatype basic =
    Bool | IntKind | Int8 | Int16 | Int32 | Int64
  | Uint | Uint8 | Uint16 | Uint32 | Uint64 | Uintptr
  | Float32 | Float64 | Complex64 | Complex128
  | Array | Chan | Func | Interface | Map | String | UnsafePointer

text \<open>
  A \<open>reflect.Type\<close>. A struct type carries its package path, its name (\<open>t.Name()\<close>,
  empty for an unnamed struct type) and its fields in declaration order. A field is a
  \<open>reflect.StructField\<close>: its name, whether it is exported (\<open>PkgPath\<close> empty), and
  its type.
\<close>

datatype gotype =
    Basic basic
  | Struct string string "field list"
  | Ptr gotype
  | Slice gotype
and field = Field (Name: string) (IsExported: bool) (Type: gotype)

text \<open>
  A Go value. Integers of every signed width are \<open>VInt\<close>, of every unsigned width
  \<open>VUint\<close>; the width is the one of the value's type. \<open>VPtr None\<close> is the nil
  pointer, \<open>VPtr (Some v)\<close> a pointer to a variable holding \<open>v\<close>. A value of a
  slice type is always a \<open>VSlice\<close>, of a struct type a \<open>VStruct\<close> with one value
  for each field. \<open>VOpaque\<close> stands for the values of the kinds that wmi.go never
  writes (floats, maps, channels, ...).
\<close>

datatype govalue =
    VBool bool
  | VInt int
  | VUint int
  | VString string
  | VStruct "govalue list"
  | VPtr "govalue option"
  | VSlice "govalue list"
  | VOpaque

text \<open>An \<open>interface{}\<close> argument: nil, or a dynamic type with a value of that type.\<close>

datatype iface = NilIface | Iface gotype govalue

fun zeroBasic :: "basic \<Rightarrow> govalue" where
  "zeroBasic Bool = VBool False"
| "zeroBasic IntKind = VInt 0"
| "zeroBasic Int8 = VInt 0"
| "zeroBasic Int16 = VInt 0"
| "zeroBasic Int32 = VInt 0"
| "zeroBasic Int64 = VInt 0"
| "zeroBasic Uint = VUint 0"
| "zeroBasic Uint8 = VUint 0"
| "zeroBasic Uint16 = VUint 0"
| "zeroBasic Uint32 = VUint 0"
| "zeroBasic Uint64 = VUint 0"
| "zeroBasic Uintptr = VUint 0"
| "zeroBasic String = VString []"
| "zeroBasic b = VOpaque"

text \<open>The zero value of a type: what \<open>reflect.New(t)\<close> points to.\<close>

primrec zero :: "gotype \<Rightarrow> govalue" and zeroField :: "field \<Rightarrow> govalue" where
  "zero (Basic b) = zeroBasic b"
| "zero (Struct p n fs) = VStruct (map zeroField fs)"
| "zero (Ptr t) = VPtr None"
| "zero (Slice t) = VSlice []"
| "zeroField (Field n x t) = zero t"

section \<open>Errors and outcomes\<close>

text \<open>
  The error values that can leave \<open>Query\<close>: the sentinel \<open>ErrInvalidEntityType\<close>,
  a \<open>*ErrFieldMismatch\<close> with its three fields, and the errors of the libraries:
  \<open>*strconv.NumError\<close>, \<open>*time.ParseError\<close> and the OLE layer's error. Only the
  second has the dynamic type \<open>*ErrFieldMismatch\<close>.
\<close>

datatype error =
    ErrInvalidEntityType
  | ErrFieldMismatch gotype string string
  | NumError string
  | ParseError string
  | OleError string

text \<open>The type assertion \<open>err.(*ErrFieldMismatch)\<close> of line 139.\<close>

fun isFieldMismatch :: "error \<Rightarrow> bool" where
  "isFieldMismatch (ErrFieldMismatch t n r) = True"
| "isFieldMismatch e = False"

text \<open>A call either returns or panics; a Go \<open>error\<close> result is an \<open>error option\<close>.\<close>

datatype 'a outcome = Returns 'a | Panics string

section \<open>The libraries wmi.go calls\<close>

text \<open>
  What \<open>prop.Value()\<close> of a fetched property can be: an \<open>int64\<close>, a \<open>string\<close>,
  a \<open>bool\<close>, the nil interface (\<open>reflect.TypeOf(val) == nil\<close>), or a value of any
  other dynamic type.
\<close>

datatype variant =
    GoInt64 "64 word"
  | GoString string
  | GoBool bool
  | GoNil
  | GoOther

text \<open>
  A \<open>SWbemObject\<close>: \<open>oleutil.GetProperty(src, n)\<close> is \<open>src n\<close>, and \<open>None\<close>
  is a non-nil error.
\<close>

type_synonym item = "string \<Rightarrow> variant option"

text \<open>
  The Go runtime and standard library, taken as parameters: the width of \<open>int\<close> and
  \<open>uint\<close>, \<open>reflect.TypeOf(time.Time{})\<close> (the variable \<open>timeType\<close> of line 176),
  \<open>strconv.ParseInt(s, 10, 64)\<close> and \<open>time.Parse(layout, s)\<close>, each with \<open>Inl\<close>
  for a non-nil error.
\<close>

record goenv =
  IntSize :: nat
  timeType :: gotype
  ParseInt :: "string \<Rightarrow> string + 64 word"
  Parse :: "string \<Rightarrow> string \<Rightarrow> string + govalue"

text \<open>
  The kinds of the case lists of lines 210, 227 and of lines 212, 232, with the width
  of each in bits.
\<close>

fun signedBits :: "goenv \<Rightarrow> gotype \<Rightarrow> nat option" where
  "signedBits E (Basic IntKind) = Some (IntSize E)"
| "signedBits E (Basic Int8) = Some 8"
| "signedBits E (Basic Int16) = Some 16"
| "signedBits E (Basic Int32) = Some 32"
| "signedBits E (Basic Int64) = Some 64"
| "signedBits E t = None"

fun unsignedBits :: "goenv \<Rightarrow> gotype \<Rightarrow> nat option" where
  "unsignedBits E (Basic Uint) = Some (IntSize E)"
| "unsignedBits E (Basic Uint8) = Some 8"
| "unsignedBits E (Basic Uint16) = Some 16"
| "unsignedBits E (Basic Uint32) = Some 32"
| "unsignedBits E (Basic Uint64) = Some 64"
| "unsignedBits E t = None"

fun isStruct :: "gotype \<Rightarrow> bool" where
  "isStruct (Struct p n fs) = True"
| "isStruct t = False"

fun isPtr :: "gotype \<Rightarrow> bool" where
  "isPtr (Ptr t) = True"
| "isPtr t = False"

text \<open>
  \<open>f.SetInt(iv)\<close> stores \<open>iv\<close> converted to the field's width, and
  \<open>f.SetUint(uint64(iv))\<close> its low bits.
\<close>

definition SetInt :: "nat \<Rightarrow> 64 word \<Rightarrow> govalue" where
  "SetInt w iv = VInt (signed_take_bit (w - 1) (sint iv))"

definition SetUint :: "nat \<Rightarrow> 64 word \<Rightarrow> govalue" where
  "SetUint w iv = VUint (take_bit w (uint iv))"

section \<open>loadEntity\<close>

text \<open>
  How one pass of the loop of \<open>loadEntity\<close> ends: it goes on to the next field
  (\<open>Continue e\<close>, where \<open>Some e\<close> is an assignment to \<open>errFieldMismatch\<close>), it
  returns an error, or it panics.
\<close>

datatype step = Continue "error option" | Return error | Panic string

text \<open>
  The body of the loop of lines 181 to 273, for one field. The first component is what
  the pass writes into the field (\<open>None\<close>: the field is not written). For a pointer
  field, \<open>f.Set(ptr)\<close> of line 186 writes a pointer to a fresh zero value before
  anything else, and panics if the field is unexported; from then on \<open>f\<close> is the
  pointed-to variable, and \<open>ft\<close> its type. \<open>f.CanSet()\<close> is false exactly for an
  unexported field: the struct comes from a pointer, so it is addressable.
\<close>

definition loadField :: "goenv \<Rightarrow> item \<Rightarrow> field \<Rightarrow> govalue option \<times> step" where
  "loadField E src fd =
    (let isptr = isPtr (Type fd);
         ft = (case Type fd of Ptr t \<Rightarrow> t | t \<Rightarrow> t);
         keep = (if isptr then Some (VPtr (Some (zero ft))) else None);
         put = (\<lambda>x. if isptr then Some (VPtr (Some x)) else Some x);
         n = Name fd
     in
     if isptr \<and> \<not> IsExported fd then
       (None, Panic ''reflect: reflect.Value.Set using value obtained using unexported field'')
     else if \<not> IsExported fd then
       (keep, Return (ErrFieldMismatch ft n ''CanSet() is false''))
     else
       (case src n of
          None \<Rightarrow> (keep, Continue (Some (ErrFieldMismatch ft n ''no such struct field'')))
        | Some (GoInt64 iv) \<Rightarrow>
            (case signedBits E ft of
               Some w \<Rightarrow> (put (SetInt w iv), Continue None)
             | None \<Rightarrow>
                 (case unsignedBits E ft of
                    Some w \<Rightarrow> (put (SetUint w iv), Continue None)
                  | None \<Rightarrow> (keep, Return (ErrFieldMismatch ft n ''not an integer class''))))
        | Some (GoString sv) \<Rightarrow>
            (if ft = Basic String then (put (VString sv), Continue None)
             else
               (case signedBits E ft of
                  Some w \<Rightarrow>
                    (case ParseInt E sv of
                       Inl e \<Rightarrow> (keep, Return (NumError e))
                     | Inr iv \<Rightarrow> (put (SetInt w iv), Continue None))
                | None \<Rightarrow>
                    (case unsignedBits E ft of
                       Some w \<Rightarrow>
                         (case ParseInt E sv of
                            Inl e \<Rightarrow> (keep, Return (NumError e))
                          | Inr iv \<Rightarrow> (put (SetUint w iv), Continue None))
                     | None \<Rightarrow>
                         (if isStruct ft \<and> ft = timeType E then
                            (let sv' = (if length sv = 25
                                        then take 22 sv @ ''0'' @ drop 22 sv else sv)
                             in case Parse E ''20060102150405.000000-0700'' sv' of
                                  Inl e \<Rightarrow> (keep, Return (ParseError e))
                                | Inr t \<Rightarrow> (put t, Continue None))
                          else (keep, Continue None)))))
        | Some (GoBool bv) \<Rightarrow>
            (if ft = Basic Bool then (put (VBool bv), Continue None)
             else (keep, Return (ErrFieldMismatch ft n ''not a bool'')))
        | Some GoNil \<Rightarrow>
            (if isptr then (keep, Continue None)
             else (keep, Return (ErrFieldMismatch ft n ''unsupported type'')))
        | Some GoOther \<Rightarrow> (keep, Return (ErrFieldMismatch ft n ''unsupported type''))))"

text \<open>The write of one pass into the struct's field \<open>i\<close>.\<close>

definition store :: "govalue list \<Rightarrow> nat \<Rightarrow> govalue option \<Rightarrow> govalue list" where
  "store vs i w = (case w of None \<Rightarrow> vs | Some x \<Rightarrow> vs[i := x])"

text \<open>
  The loop \<open>for i := 0; i < v.NumField(); i++\<close> over the fields \<open>fs\<close> of the
  struct, whose field values are \<open>vs\<close>; \<open>efm\<close> is the variable
  \<open>errFieldMismatch\<close>. The result is the struct as the loop leaves it, and how
  \<open>loadEntity\<close> ends.
\<close>

function loadLoop ::
  "goenv \<Rightarrow> item \<Rightarrow> field list \<Rightarrow> nat \<Rightarrow> govalue list \<Rightarrow> error option
     \<Rightarrow> govalue list \<times> error option outcome" where
  "loadLoop E src fs i vs efm =
     (if i < length fs then
        (case loadField E src (fs ! i) of
           (w, Continue e) \<Rightarrow>
             loadLoop E src fs (i + 1) (store vs i w)
               (case e of None \<Rightarrow> efm | Some m \<Rightarrow> Some m)
         | (w, Return err) \<Rightarrow> (store vs i w, Returns (Some err))
         | (w, Panic msg) \<Rightarrow> (store vs i w, Panics msg))
      else (vs, Returns efm))"
  by pat_completeness auto
termination
  by (relation "measure (\<lambda>(E, src, fs, i, vs, efm). length fs - i)") auto

text \<open>
  \<open>loadEntity(dst, src)\<close> for a \<open>dst\<close> that points to a struct of type \<open>t\<close>
  holding \<open>v\<close>. On any other type \<open>v.NumField()\<close> panics.
\<close>

fun loadEntity :: "goenv \<Rightarrow> gotype \<Rightarrow> govalue \<Rightarrow> item \<Rightarrow> govalue \<times> error option outcome" where
  "loadEntity E (Struct p n fs) (VStruct vs) src =
     (case loadLoop E src fs 0 vs None of (vs', r) \<Rightarrow> (VStruct vs', r))"
| "loadEntity E t v src = (v, Panics ''reflect: call of reflect.Value.NumField on non-struct Value'')"

section \<open>The OLE layer\<close>

text \<open>
  The external objects \<open>Query\<close> talks to, each call with \<open>Inl\<close> (or \<open>Some\<close>)
  for a non-nil error. \<open>Count\<close> is \<open>int64(v.Val)\<close> of the result set's property.
  A result set answers \<open>ItemIndex\<close> for the \<open>int64\<close> position it is given.
\<close>

record resultset =
  Count :: "string + 64 word"
  ItemIndex :: "int \<Rightarrow> string + item"

record service =
  ExecQuery :: "string \<Rightarrow> string + resultset"

record ole =
  CreateObject :: "string option"
  QueryInterface :: "string option"
  ConnectServer :: "variant list \<Rightarrow> string + service"

text \<open>
  The calls \<open>Query\<close> itself makes on the OLE layer, in the order it makes them; the
  deferred ones are made when the function (or the closure of line 128) is left. The
  mutex and \<open>runtime.LockOSThread\<close> are not part of the record.
\<close>

datatype handle = Unknown | Wmi | Service | Result | Item int

datatype call =
    CoInitializeEx
  | CoUninitialize
  | CallCreateObject
  | CallQueryInterface
  | CallConnectServer "variant list"
  | CallExecQuery string
  | GetCount
  | CallItemIndex int
  | Release handle

section \<open>checkMultiArg and Query\<close>

datatype multiArgType = multiArgTypeInvalid | multiArgTypeStruct | multiArgTypeStructPtr

text \<open>
  \<open>checkMultiArg(v)\<close> reads only the type of \<open>v\<close>. The second result is
  \<open>None\<close> where the source returns the nil \<open>reflect.Type\<close>.
\<close>

fun checkMultiArg :: "gotype \<Rightarrow> multiArgType \<times> gotype option" where
  "checkMultiArg (Slice (Struct p n fs)) = (multiArgTypeStruct, Some (Struct p n fs))"
| "checkMultiArg (Slice (Ptr (Struct p n fs))) = (multiArgTypeStructPtr, Some (Struct p n fs))"
| "checkMultiArg t = (multiArgTypeInvalid, None)"

text \<open>\<open>reflect.Append(dv, ev)\<close>, which panics (\<open>None\<close>) on a value that is no slice.\<close>

fun Append :: "govalue \<Rightarrow> govalue \<Rightarrow> govalue option" where
  "Append (VSlice xs) x = Some (VSlice (xs @ [x]))"
| "Append v x = None"

text \<open>Lines 148 to 150: the element appended for the loaded struct \<open>ev\<close>.\<close>

definition elemOf :: "multiArgType \<Rightarrow> govalue \<Rightarrow> govalue" where
  "elemOf mat ev = (if mat \<noteq> multiArgTypeStructPtr then ev else VPtr (Some ev))"

text \<open>Lines 139 to 146: a non-nil error that is no \<open>*ErrFieldMismatch\<close> ends the query.\<close>

definition isHard :: "error option \<Rightarrow> bool" where
  "isHard err = (case err of None \<Rightarrow> False | Some e \<Rightarrow> \<not> isFieldMismatch e)"

text \<open>Line 143: a field mismatch overwrites \<open>errFieldMismatch\<close>.\<close>

definition assign :: "error option \<Rightarrow> error option \<Rightarrow> error option" where
  "assign efm err = (case err of None \<Rightarrow> efm | Some e \<Rightarrow> Some e)"

text \<open>
  The loop of lines 127 to 157, from position \<open>i\<close>, with the slice \<open>dv\<close> and the
  variable \<open>errFieldMismatch\<close> as \<open>efm\<close>. It gives what \<open>Query\<close> returns, the
  slice at that moment, and the calls made.
\<close>

function queryLoop ::
  "goenv \<Rightarrow> resultset \<Rightarrow> multiArgType \<Rightarrow> gotype option \<Rightarrow> int \<Rightarrow> int \<Rightarrow> govalue
     \<Rightarrow> error option \<Rightarrow> error option outcome \<times> govalue \<times> call list" where
  "queryLoop E result mat elemType count i dv efm =
     (if i < count then
        (case ItemIndex result i of
           Inl e \<Rightarrow> (Returns (Some (OleError e)), dv, [CallItemIndex i])
         | Inr item \<Rightarrow>
             (case elemType of
                None \<Rightarrow> (Panics ''reflect: New(nil)'', dv, [CallItemIndex i, Release (Item i)])
              | Some et \<Rightarrow>
                  (case loadEntity E et (zero et) item of
                     (ev, Panics msg) \<Rightarrow>
                       (Panics msg, dv, [CallItemIndex i, Release (Item i)])
                   | (ev, Returns err) \<Rightarrow>
                       if isHard err then
                         (Returns err, dv, [CallItemIndex i, Release (Item i)])
                       else
                         (case Append dv (elemOf mat ev) of
                            None \<Rightarrow>
                              (Panics ''reflect: call of reflect.Append on non-slice Value'',
                               dv, [CallItemIndex i, Release (Item i)])
                          | Some dv' \<Rightarrow>
                              (case queryLoop E result mat elemType count (i + 1) dv'
                                      (assign efm err) of
                                 (r, dv'', cs) \<Rightarrow>
                                   (r, dv'', CallItemIndex i # Release (Item i) # cs))))))
      else (Returns efm, dv, []))"
  by pat_completeness auto
termination
  by (relation "measure (\<lambda>(E, result, mat, elemType, count, i, dv, efm). nat (count - i))") auto

text \<open>
  \<open>Query(query, dst, connectServerArgs...)\<close>. The result is what the call returns,
  the argument \<open>dst\<close> with what it points to afterwards, and the calls made on the
  OLE layer.
\<close>

definition Query ::
  "goenv \<Rightarrow> ole \<Rightarrow> string \<Rightarrow> iface \<Rightarrow> variant list
     \<Rightarrow> error option outcome \<times> iface \<times> call list" where
  "Query E W query dst connectServerArgs =
     (case dst of
        Iface (Ptr t) (VPtr (Some v)) \<Rightarrow>
          (case checkMultiArg t of
             (multiArgTypeInvalid, elemType) \<Rightarrow> (Returns (Some ErrInvalidEntityType), dst, [])
           | (mat, elemType) \<Rightarrow>
               (case CreateObject W of
                  Some e \<Rightarrow>
                    (Returns (Some (OleError e)), dst,
                     [CoInitializeEx, CallCreateObject, CoUninitialize])
                | None \<Rightarrow>
                    (case QueryInterface W of
                       Some e \<Rightarrow>
                         (Returns (Some (OleError e)), dst,
                          [CoInitializeEx, CallCreateObject, CallQueryInterface,
                           Release Unknown, CoUninitialize])
                     | None \<Rightarrow>
                         (case ConnectServer W connectServerArgs of
                            Inl e \<Rightarrow>
                              (Returns (Some (OleError e)), dst,
                               [CoInitializeEx, CallCreateObject, CallQueryInterface,
                                CallConnectServer connectServerArgs,
                                Release Wmi, Release Unknown, CoUninitialize])
                          | Inr srv \<Rightarrow>
                              (case ExecQuery srv query of
                                 Inl e \<Rightarrow>
                                   (Returns (Some (OleError e)), dst,
                                    [CoInitializeEx, CallCreateObject, CallQueryInterface,
                                     CallConnectServer connectServerArgs, CallExecQuery query,
                                     Release Service, Release Wmi, Release Unknown,
                                     CoUninitialize])
                               | Inr result \<Rightarrow>
                                   (case Count result of
                                      Inl e \<Rightarrow>
                                        (Returns (Some (OleError e)), dst,
                                         [CoInitializeEx, CallCreateObject, CallQueryInterface,
                                          CallConnectServer connectServerArgs,
                                          CallExecQuery query, GetCount,
                                          Release Result, Release Service, Release Wmi,
                                          Release Unknown, CoUninitialize])
                                    | Inr c \<Rightarrow>
                                        (case queryLoop E result mat elemType (sint c) 0 v None of
                                           (r, v', cs) \<Rightarrow>
                                             (r, Iface (Ptr t) (VPtr (Some v')),
                                              [CoInitializeEx, CallCreateObject,
                                               CallQueryInterface,
                                               CallConnectServer connectServerArgs,
                                               CallExecQuery query, GetCount]
                                              @ cs @
                                              [Release Result, Release Service, Release Wmi,
                                               Release Unknown, CoUninitialize]))))))))
      | _ \<Rightarrow> (Returns (Some ErrInvalidEntityType), dst, []))"

section \<open>CreateQuery\<close>

text \<open>
  \<open>reflect.Indirect(reflect.ValueOf(src))\<close>: a non-nil pointer gives what it points
  to, a nil pointer the zero \<open>reflect.Value\<close> (here \<open>NilIface\<close>, as for the nil
  interface), anything else itself.
\<close>

fun Indirect :: "iface \<Rightarrow> iface" where
  "Indirect (Iface (Ptr t) (VPtr (Some v))) = Iface t v"
| "Indirect (Iface (Ptr t) v) = NilIface"
| "Indirect x = x"

text \<open>\<open>strings.Join(fields, sep)\<close>.\<close>

fun Join :: "string list \<Rightarrow> string \<Rightarrow> string" where
  "Join [] sep = []"
| "Join [a] sep = a"
| "Join (a # b # rest) sep = a @ sep @ Join (b # rest) sep"

text \<open>
  \<open>CreateQuery(src, where)\<close>. \<open>s.Type()\<close> of line 322 panics on the zero
  \<open>reflect.Value\<close>.
\<close>

definition CreateQuery :: "iface \<Rightarrow> string \<Rightarrow> string outcome" where
  "CreateQuery src where' =
     (case Indirect src of
        NilIface \<Rightarrow> Panics ''reflect: call of reflect.Value.Type on zero Value''
      | Iface st v \<Rightarrow>
          (let t = (case st of Slice el \<Rightarrow> el | _ \<Rightarrow> st)
           in case t of
                Struct p n fs \<Rightarrow>
                  Returns (''SELECT '' @ Join (map Name fs) '', '' @ '' FROM '' @ n @ '' '' @ where')
              | _ \<Rightarrow> Returns []))"

section \<open>Sample inputs\<close>

text \<open>
  Inputs on which the model is run: the struct of the package's example with the two
  fields of the command's example query, a 64-bit platform, and stand-ins for the two
  parsers. \<open>sampleParseInt\<close> reads decimal digits with an optional sign, in the
  \<open>int64\<close> range. \<open>sampleParse\<close> accepts a literal that has the shape of the
  layout, character by character (a digit for a digit, a sign for the sign), and gives a
  \<open>time.Time\<close> whose \<open>ext\<close> holds the fourteen date and time digits read as a
  number; its error quotes the literal, as the message of \<open>*time.ParseError\<close> does.
\<close>

definition Win32_Process :: gotype where
  "Win32_Process =
     Struct ''main'' ''Win32_Process''
       [Field ''Name'' True (Basic String), Field ''HandleCount'' True (Basic Uint32)]"

definition isDigit :: "char \<Rightarrow> bool" where
  "isDigit c = (48 \<le> (of_char c :: int) \<and> (of_char c :: int) \<le> 57)"

fun decimal :: "int \<Rightarrow> string \<Rightarrow> int option" where
  "decimal acc [] = Some acc"
| "decimal acc (c # cs) =
     (if isDigit c then decimal (10 * acc + (of_char c - 48)) cs else None)"

definition sampleParseInt :: "string \<Rightarrow> string + 64 word" where
  "sampleParseInt s =
     (let neg = (take 1 s = ''-'');
          ds = (if take 1 s = ''-'' \<or> take 1 s = ''+'' then drop 1 s else s)
      in if ds = [] then Inl ''invalid syntax''
         else (case decimal 0 ds of
                 None \<Rightarrow> Inl ''invalid syntax''
               | Some n \<Rightarrow>
                   if neg then (if n \<le> 2 ^ 63 then Inr (word_of_int (- n))
                                else Inl ''value out of range'')
                   else (if n < 2 ^ 63 then Inr (word_of_int n)
                         else Inl ''value out of range'')))"

definition shape :: "char \<Rightarrow> char \<Rightarrow> bool" where
  "shape l c =
     (if isDigit l then isDigit c
      else if l = CHR ''-'' then c = CHR ''-'' \<or> c = CHR ''+''
      else c = l)"

definition sampleParse :: "string \<Rightarrow> string \<Rightarrow> string + govalue" where
  "sampleParse layout s =
     (if list_all2 shape layout s then
        (case decimal 0 (take 14 s) of
           Some n \<Rightarrow> Inr (VStruct [VUint 0, VInt n, VPtr None])
         | None \<Rightarrow> Inl (''parsing time '' @ s))
      else Inl (''parsing time '' @ s))"

definition sampleEnv :: goenv where
  "sampleEnv =
     \<lparr> IntSize = 64,
       timeType =
         Struct ''time'' ''Time''
           [Field ''wall'' False (Basic Uint64), Field ''ext'' False (Basic Int64),
            Field ''loc'' False (Ptr (Struct ''time'' ''Location'' []))],
       ParseInt = sampleParseInt,
       Parse = sampleParse \<rparr>"

text \<open>
  An OLE layer on which every call succeeds and whose query gives the result set
  \<open>rs\<close>, and a result set with the given count whose positions hold the items of
  a list, every other position failing.
\<close>

definition sampleOle :: "resultset \<Rightarrow> ole" where
  "sampleOle rs =
     \<lparr> CreateObject = None, QueryInterface = None,
       ConnectServer = (\<lambda>args. Inr \<lparr> ExecQuery = (\<lambda>q. Inr rs) \<rparr>) \<rparr>"

definition itemsOf :: "(string + item) list \<Rightarrow> int \<Rightarrow> string + item" where
  "itemsOf xs i = (if 0 \<le> i \<and> nat i < length xs then xs ! nat i else Inl ''Invalid index'')"

definition sampleResult :: "int \<Rightarrow> (string + item) list \<Rightarrow> resultset" where
  "sampleResult n xs = \<lparr> Count = Inr (word_of_int n), ItemIndex = itemsOf xs \<rparr>"

definition process :: "string \<Rightarrow> int \<Rightarrow> item" where
  "process name handles =
     [''Name'' \<mapsto> GoString name, ''HandleCount'' \<mapsto> GoInt64 (word_of_int handles)]"

text \<open>
  Three more struct types for the same class: one with a pointer field and a field of a
  kind that takes no integer, one with an unexported field between two exported ones, one
  with a pointer field last; and a struct with a \<open>time.Time\<close> field.
\<close>

definition Mixed :: gotype where
  "Mixed =
     Struct ''main'' ''Win32_Process''
       [Field ''Caption'' True (Ptr (Basic String)), Field ''HandleCount'' True (Basic Bool),
        Field ''Name'' True (Basic String)]"

definition Hidden :: gotype where
  "Hidden =
     Struct ''main'' ''Win32_Process''
       [Field ''Name'' True (Basic String), Field ''secret'' False (Basic String),
        Field ''HandleCount'' True (Basic Uint32)]"

definition Optional :: gotype where
  "Optional =
     Struct ''main'' ''Win32_Process''
       [Field ''Name'' True (Basic String), Field ''Caption'' True (Ptr (Basic String))]"

definition Win32_OperatingSystem :: gotype where
  "Win32_OperatingSystem =
     Struct ''main'' ''Win32_OperatingSystem''
       [Field ''InstallDate'' True (timeType sampleEnv)]"

section \<open>Vocabulary of the statements\<close>

text \<open>
  For a struct type \<open>S\<close> and an item: the element that line 151 appends once
  \<open>loadEntity\<close> has loaded the item into a fresh \<open>S\<close>, and what \<open>loadEntity\<close>
  returns for it.
\<close>

definition bound :: "goenv \<Rightarrow> multiArgType \<Rightarrow> gotype \<Rightarrow> item \<Rightarrow> govalue" where
  "bound E mat S it = elemOf mat (fst (loadEntity E S (zero S) it))"

definition bindErr :: "goenv \<Rightarrow> gotype \<Rightarrow> item \<Rightarrow> error option outcome" where
  "bindErr E S it = snd (loadEntity E S (zero S) it)"

text \<open>
  The calls of \<open>Query\<close> before the loop and its deferred calls after it, the two calls
  of one pass of the loop, and the test for a fetch of a position.
\<close>

definition opened :: "variant list \<Rightarrow> string \<Rightarrow> call list" where
  "opened args query =
     [CoInitializeEx, CallCreateObject, CallQueryInterface, CallConnectServer args,
      CallExecQuery query, GetCount]"

definition closed :: "call list" where
  "closed = [Release Result, Release Service, Release Wmi, Release Unknown, CoUninitialize]"

definition fetched :: "nat \<Rightarrow> call list" where
  "fetched j = [CallItemIndex (int j), Release (Item (int j))]"

fun isItemIndex :: "call \<Rightarrow> bool" where
  "isItemIndex (CallItemIndex i) = True"
| "isItemIndex c = False"

text \<open>
  The shape the documentation of \<open>Query\<close> asks of \<open>dst\<close>, by its type: a pointer to
  a slice of a struct type or of pointers to a struct type.
\<close>

fun validShape :: "iface \<Rightarrow> bool" where
  "validShape (Iface (Ptr (Slice (Struct p n fs))) v) = True"
| "validShape (Iface (Ptr (Slice (Ptr (Struct p n fs)))) v) = True"
| "validShape d = False"

section \<open>The loops, one pass at a time\<close>

declare loadLoop.simps [simp del] queryLoop.simps [simp del]

lemma loadLoop_stop: "\<not> i < length fs \<Longrightarrow> loadLoop E src fs i vs efm = (vs, Returns efm)"
  by (subst loadLoop.simps) simp

lemma loadLoop_next:
  "i < length fs \<Longrightarrow> loadLoop E src fs i vs efm =
     (case loadField E src (fs ! i) of
           (w, Continue e) \<Rightarrow>
             loadLoop E src fs (i + 1) (store vs i w)
               (case e of None \<Rightarrow> efm | Some m \<Rightarrow> Some m)
         | (w, Return err) \<Rightarrow> (store vs i w, Returns (Some err))
         | (w, Panic msg) \<Rightarrow> (store vs i w, Panics msg))"
  by (subst loadLoop.simps) simp

lemmas run_simps = loadLoop_stop loadLoop_next loadField_def store_def SetInt_def SetUint_def
  Win32_Process_def process_def sampleEnv_def bindErr_def bound_def elemOf_def

lemma fetched_app: "CallItemIndex (int n) # Release (Item (int n)) # cs = fetched n @ cs"
  by (simp add: fetched_def)

lemma queryLoop_end:
  "\<not> i < count \<Longrightarrow> queryLoop E rs mat et count i dv efm = (Returns efm, dv, [])"
  by (subst queryLoop.simps) simp

lemma queryLoop_next:
  "i < count \<Longrightarrow> queryLoop E result mat elemType count i dv efm =
        (case ItemIndex result i of
           Inl e \<Rightarrow> (Returns (Some (OleError e)), dv, [CallItemIndex i])
         | Inr item \<Rightarrow>
             (case elemType of
                None \<Rightarrow> (Panics ''reflect: New(nil)'', dv, [CallItemIndex i, Release (Item i)])
              | Some et \<Rightarrow>
                  (case loadEntity E et (zero et) item of
                     (ev, Panics msg) \<Rightarrow>
                       (Panics msg, dv, [CallItemIndex i, Release (Item i)])
                   | (ev, Returns err) \<Rightarrow>
                       if isHard err then
                         (Returns err, dv, [CallItemIndex i, Release (Item i)])
                       else
                         (case Append dv (elemOf mat ev) of
                            None \<Rightarrow>
                              (Panics ''reflect: call of reflect.Append on non-slice Value'',
                               dv, [CallItemIndex i, Release (Item i)])
                          | Some dv' \<Rightarrow>
                              (case queryLoop E result mat elemType count (i + 1) dv'
                                      (assign efm err) of
                                 (r, dv'', cs) \<Rightarrow>
                                   (r, dv'', CallItemIndex i # Release (Item i) # cs))))))"
  by (subst queryLoop.simps) simp

lemmas query_simps = Query_def queryLoop_next queryLoop_end sampleOle_def sampleResult_def
  itemsOf_def isHard_def assign_def run_simps

lemma queryLoop_fetch_error:
  "i < count \<Longrightarrow> ItemIndex rs i = Inl msg \<Longrightarrow>
   queryLoop E rs mat et count i dv efm = (Returns (Some (OleError msg)), dv, [CallItemIndex i])"
  by (subst queryLoop.simps) simp

lemma queryLoop_hard:
  "i < count \<Longrightarrow> ItemIndex rs i = Inr it \<Longrightarrow> bindErr E S it = Returns err \<Longrightarrow> isHard err \<Longrightarrow>
   queryLoop E rs mat (Some S) count i dv efm =
     (Returns err, dv, [CallItemIndex i, Release (Item i)])"
  by (subst queryLoop.simps) (auto simp: bindErr_def split: prod.splits)

lemma queryLoop_soft:
  "i < count \<Longrightarrow> ItemIndex rs i = Inr it \<Longrightarrow> bindErr E S it = Returns err \<Longrightarrow>
   \<not> isHard err \<Longrightarrow>
   queryLoop E rs mat (Some S) count i (VSlice xs) efm =
     (case queryLoop E rs mat (Some S) count (i + 1) (VSlice (xs @ [bound E mat S it]))
             (assign efm err) of
        (r, dv, cs) \<Rightarrow> (r, dv, CallItemIndex i # Release (Item i) # cs))"
  by (subst queryLoop.simps) (auto simp: bindErr_def bound_def split: prod.splits)

text \<open>
  Positions \<open>i\<close> to \<open>k - 1\<close> that are fetched and loaded with no error other than
  a field mismatch take the loop from \<open>i\<close> to \<open>k\<close>, appending one element each.
\<close>

lemma queryLoop_run:
  assumes ok: "\<And>j. i \<le> j \<Longrightarrow> j < k \<Longrightarrow>
             ItemIndex rs (int j) = Inr (items j) \<and> bindErr E S (items j) = Returns (errs j)
             \<and> \<not> isHard (errs j)"
    and ik: "i \<le> k" and kc: "int k \<le> count"
  shows "queryLoop E rs mat (Some S) count (int i) (VSlice xs) efm =
     (case queryLoop E rs mat (Some S) count (int k)
             (VSlice (xs @ map (\<lambda>j. bound E mat S (items j)) [i..<k]))
             (foldl assign efm (map errs [i..<k])) of
        (r, dv, cs) \<Rightarrow> (r, dv, concat (map fetched [i..<k]) @ cs))"
  using ik ok kc
proof (induction k rule: dec_induct)
  case base
  show ?case by (simp split: prod.splits)
next
  case (step n)
  have hn: "ItemIndex rs (int n) = Inr (items n)" "bindErr E S (items n) = Returns (errs n)"
    "\<not> isHard (errs n)"
    using step.prems(1) [of n] step.hyps by auto
  have lt: "int n < count" using step.prems(2) by simp
  have IH: "queryLoop E rs mat (Some S) count (int i) (VSlice xs) efm =
     (case queryLoop E rs mat (Some S) count (int n)
             (VSlice (xs @ map (\<lambda>j. bound E mat S (items j)) [i..<n]))
             (foldl assign efm (map errs [i..<n])) of
        (r, dv, cs) \<Rightarrow> (r, dv, concat (map fetched [i..<n]) @ cs))"
    using step.IH step.prems step.hyps by simp
  show ?case
    unfolding IH queryLoop_soft [OF lt hn]
    using step.hyps by (simp add: fetched_app add.commute split: prod.splits)
qed

text \<open>With a valid destination and a session that opens, \<open>Query\<close> is its loop.\<close>

lemma Query_run:
  assumes S: "isStruct S"
    and shape: "(t = Slice S \<and> mat = multiArgTypeStruct) \<or>
                (t = Slice (Ptr S) \<and> mat = multiArgTypeStructPtr)"
    and session: "CreateObject W = None" "QueryInterface W = None"
      "ConnectServer W args = Inr srv" "ExecQuery srv q = Inr rs" "Count rs = Inr c"
  shows "Query E W q (Iface (Ptr t) (VPtr (Some v))) args =
     (case queryLoop E rs mat (Some S) (sint c) 0 v None of
        (r, v', cs) \<Rightarrow> (r, Iface (Ptr t) (VPtr (Some v')), opened args q @ cs @ closed))"
proof -
  obtain p n fs where "S = Struct p n fs" using S by (cases S) auto
  then show ?thesis
    using shape session by (auto simp: Query_def opened_def closed_def split: prod.splits)
qed

lemma foldl_assign_None: "\<forall>e\<in>set es. e = None \<Longrightarrow> foldl assign efm es = efm"
  by (induction es arbitrary: efm) (simp_all add: assign_def)

lemma foldl_assign_cases: "foldl assign efm es = efm \<or> foldl assign efm es \<in> set es"
proof (induction es arbitrary: efm)
  case Nil
  show ?case by simp
next
  case (Cons a es)
  show ?case using Cons [of "assign efm a"] by (cases a) (auto simp: assign_def)
qed

lemma foldl_assign_eq_None:
  "foldl assign efm es = None \<longleftrightarrow> efm = None \<and> (\<forall>e\<in>set es. e = None)"
  by (induction es arbitrary: efm) (auto simp: assign_def split: option.splits)

lemma filter_fetched:
  "filter isItemIndex (concat (map fetched js)) = map (\<lambda>j. CallItemIndex (int j)) js"
  by (induction js) (simp_all add: fetched_def)

lemma filter_opened: "filter isItemIndex (opened args q) = []"
  by (simp add: opened_def)

lemma filter_closed: "filter isItemIndex closed = []"
  by (simp add: closed_def)

lemma upt_2: "[0..<2] = [0, Suc 0]"
  by (simp add: numeral_2_eq_2)

lemma upt_split: "m < N \<Longrightarrow> [0..<N] = [0..<m] @ m # [Suc m..<N]"
proof -
  assume a: "m < N"
  have "[0..<N] = [0..<m] @ [m..<N]"
    using a upt_add_eq_append [of 0 m "N - m"] by simp
  then show ?thesis using a by (simp add: upt_conv_Cons)
qed

section \<open>The claims about Query\<close>

text \<open>
  C1. Let the destination point to a slice of a struct type \<open>S\<close> or of pointers to
  \<open>S\<close>, let the session open and the query give a result set of \<open>N\<close> records, and
  let every position be fetched and loaded with neither an error nor a field mismatch.
  Then \<open>Query\<close> returns nil, and the slice is its former contents followed by exactly
  the \<open>N\<close> loaded records, in the order of the positions \<open>0, ..., N - 1\<close>; each
  position is fetched once, in that order.
\<close>

theorem Query_binds_all:
  assumes S: "isStruct S"
    and shape: "(t = Slice S \<and> mat = multiArgTypeStruct) \<or>
                (t = Slice (Ptr S) \<and> mat = multiArgTypeStructPtr)"
    and session: "CreateObject W = None" "QueryInterface W = None"
      "ConnectServer W args = Inr srv" "ExecQuery srv q = Inr rs" "Count rs = Inr c"
    and count: "sint c = int N"
    and recs: "\<And>j. j < N \<Longrightarrow>
                 ItemIndex rs (int j) = Inr (items j) \<and> bindErr E S (items j) = Returns None"
  shows "Query E W q (Iface (Ptr t) (VPtr (Some (VSlice xs)))) args =
     (Returns None,
      Iface (Ptr t) (VPtr (Some (VSlice (xs @ map (\<lambda>j. bound E mat S (items j)) [0..<N])))),
      opened args q @ concat (map fetched [0..<N]) @ closed)"
proof -
  have run: "queryLoop E rs mat (Some S) (sint c) (int 0) (VSlice xs) None =
     (case queryLoop E rs mat (Some S) (sint c) (int N)
             (VSlice (xs @ map (\<lambda>j. bound E mat S (items j)) [0..<N]))
             (foldl assign None (map (\<lambda>j. None) [0..<N])) of
        (r, dv, cs) \<Rightarrow> (r, dv, concat (map fetched [0..<N]) @ cs))"
    by (rule queryLoop_run) (use recs count in \<open>auto simp: isHard_def\<close>)
  have none: "foldl assign None (map (\<lambda>j. None) [0..<N]) = None"
    by (rule foldl_assign_None) simp
  show ?thesis
    unfolding Query_run [OF S shape session]
    using run by (simp add: none count queryLoop_end)
qed

theorem Query_binds_all_witness:
  "Query sampleEnv
     (sampleOle (sampleResult 2 [Inr (process ''System'' 700), Inr (process ''idle'' 3)]))
     ''SELECT Name, HandleCount FROM Win32_Process ''
     (Iface (Ptr (Slice Win32_Process)) (VPtr (Some (VSlice [])))) [] =
   (Returns None,
    Iface (Ptr (Slice Win32_Process))
      (VPtr (Some (VSlice [VStruct [VString ''System'', VUint 700],
                           VStruct [VString ''idle'', VUint 3]]))),
    [CoInitializeEx, CallCreateObject, CallQueryInterface, CallConnectServer [],
     CallExecQuery ''SELECT Name, HandleCount FROM Win32_Process '', GetCount,
     CallItemIndex 0, Release (Item 0), CallItemIndex 1, Release (Item 1),
     Release Result, Release Service, Release Wmi, Release Unknown, CoUninitialize])"
proof -
  let ?rs = "sampleResult 2 [Inr (process ''System'' 700), Inr (process ''idle'' 3)]"
  let ?items = "\<lambda>j::nat. if j = 0 then process ''System'' 700 else process ''idle'' 3"
  have S: "isStruct Win32_Process" by (simp add: Win32_Process_def)
  have recs: "ItemIndex ?rs (int j) = Inr (?items j) \<and>
              bindErr sampleEnv Win32_Process (?items j) = Returns None"
    if "j < 2" for j
  proof -
    have "j = 0 \<or> j = 1" using that by auto
    then show ?thesis by (auto simp: sampleResult_def itemsOf_def run_simps)
  qed
  show ?thesis
    using Query_binds_all [where S = Win32_Process and t = "Slice Win32_Process"
        and mat = multiArgTypeStruct and W = "sampleOle ?rs" and rs = ?rs and N = 2
        and items = ?items and E = sampleEnv and c = 2 and args = "[]" and xs = "[]"
        and q = "''SELECT Name, HandleCount FROM Win32_Process ''",
        OF S _ _ _ _ _ _ _ recs]
    by (simp add: sampleOle_def sampleResult_def opened_def closed_def fetched_def run_simps
          upt_2)
qed

lemma loadLoop_missing:
  assumes "i < length fs" "fs ! i = Field n True T" "src n = None"
  shows "loadLoop E src fs i vs efm =
     loadLoop E src fs (Suc i)
       (case T of Ptr T' \<Rightarrow> vs[i := VPtr (Some (zero T'))] | _ \<Rightarrow> vs)
       (Some (ErrFieldMismatch (case T of Ptr T' \<Rightarrow> T' | _ \<Rightarrow> T) n ''no such struct field''))"
  using assms by (cases T) (simp_all add: loadLoop_next loadField_def store_def)

text \<open>
  C2, as the code has it. Let the destination be valid, the session open and the query
  give \<open>N\<close> records,
  each fetched and loaded with no error other than, for at least one of them, a field
  mismatch. Then \<open>Query\<close> returns a field mismatch, and it does so after fetching every
  position and appending all \<open>N\<close> records, each as \<open>loadEntity\<close> left it. Inside a
  record, an exported field whose property the source does not have is passed over: the
  mismatch is noted and the loop goes on with the next field; the field keeps its value
  when it is no pointer, and holds a pointer to a fresh zero value when it is one. (An
  unexported field never reaches the lookup of line 197.)
\<close>

theorem Query_appends_all_despite_mismatch:
  assumes S: "isStruct S"
    and shape: "(t = Slice S \<and> mat = multiArgTypeStruct) \<or>
                (t = Slice (Ptr S) \<and> mat = multiArgTypeStructPtr)"
    and session: "CreateObject W = None" "QueryInterface W = None"
      "ConnectServer W args = Inr srv" "ExecQuery srv q = Inr rs" "Count rs = Inr c"
    and count: "sint c = int N"
    and recs: "\<And>j. j < N \<Longrightarrow> ItemIndex rs (int j) = Inr (items j) \<and>
                   bindErr E S (items j) = Returns (errs j) \<and> \<not> isHard (errs j)"
    and some: "m < N" "errs m \<noteq> None"
    and field: "i < length fs" "fs ! i = Field n True T" "src n = None"
  shows "(\<exists>e. isFieldMismatch e \<and>
           Query E W q (Iface (Ptr t) (VPtr (Some (VSlice xs)))) args =
             (Returns (Some e),
              Iface (Ptr t)
                (VPtr (Some (VSlice (xs @ map (\<lambda>j. bound E mat S (items j)) [0..<N])))),
              opened args q @ concat (map fetched [0..<N]) @ closed)) \<and>
         loadLoop E src fs i vs efm =
           loadLoop E src fs (Suc i)
             (case T of Ptr T' \<Rightarrow> vs[i := VPtr (Some (zero T'))] | _ \<Rightarrow> vs)
             (Some (ErrFieldMismatch (case T of Ptr T' \<Rightarrow> T' | _ \<Rightarrow> T) n
                      ''no such struct field''))"
proof -
  have run: "queryLoop E rs mat (Some S) (sint c) (int 0) (VSlice xs) None =
     (case queryLoop E rs mat (Some S) (sint c) (int N)
             (VSlice (xs @ map (\<lambda>j. bound E mat S (items j)) [0..<N]))
             (foldl assign None (map errs [0..<N])) of
        (r, dv, cs) \<Rightarrow> (r, dv, concat (map fetched [0..<N]) @ cs))"
    by (rule queryLoop_run) (use recs count in auto)
  define es where "es = map errs [0..<N]"
  have mem: "errs m \<in> set es" using some(1) by (simp add: es_def)
  have "foldl assign None es \<noteq> None"
  proof
    assume "foldl assign None es = None"
    then have "\<forall>x\<in>set es. x = None" by (simp add: foldl_assign_eq_None)
    then have "errs m = None" using mem by (rule bspec)
    then show False using some(2) by simp
  qed
  then obtain e where agg': "foldl assign None es = Some e" by blast
  then have "Some e \<in> set es"
    using foldl_assign_cases [of None es] by simp
  then obtain j where "j < N" "errs j = Some e" unfolding es_def by auto
  then have fm: "isFieldMismatch e" using recs [of j] by (simp add: isHard_def)
  have agg: "foldl assign None (map errs [0..<N]) = Some e" using agg' by (simp add: es_def)
  have "Query E W q (Iface (Ptr t) (VPtr (Some (VSlice xs)))) args =
             (Returns (Some e),
              Iface (Ptr t)
                (VPtr (Some (VSlice (xs @ map (\<lambda>j. bound E mat S (items j)) [0..<N])))),
              opened args q @ concat (map fetched [0..<N]) @ closed)"
    unfolding Query_run [OF S shape session]
    using run by (simp add: agg count queryLoop_end)
  with fm have "\<exists>e. isFieldMismatch e \<and>
           Query E W q (Iface (Ptr t) (VPtr (Some (VSlice xs)))) args =
             (Returns (Some e),
              Iface (Ptr t)
                (VPtr (Some (VSlice (xs @ map (\<lambda>j. bound E mat S (items j)) [0..<N])))),
              opened args q @ concat (map fetched [0..<N]) @ closed)"
    by (intro exI [of _ e] conjI)
  moreover have "loadLoop E src fs i vs efm =
           loadLoop E src fs (Suc i)
             (case T of Ptr T' \<Rightarrow> vs[i := VPtr (Some (zero T'))] | _ \<Rightarrow> vs)
             (Some (ErrFieldMismatch (case T of Ptr T' \<Rightarrow> T' | _ \<Rightarrow> T) n
                      ''no such struct field''))"
    using field by (rule loadLoop_missing)
  ultimately show ?thesis by (rule conjI)
qed

theorem Query_appends_all_despite_mismatch_witness:
  "(\<exists>e. isFieldMismatch e \<and>
      Query sampleEnv
        (sampleOle (sampleResult 2
           [Inr (process ''System'' 700), Inr [''Name'' \<mapsto> GoString ''idle'']]))
        ''SELECT Name, HandleCount FROM Win32_Process ''
        (Iface (Ptr (Slice Win32_Process)) (VPtr (Some (VSlice [])))) [] =
      (Returns (Some e),
       Iface (Ptr (Slice Win32_Process))
         (VPtr (Some (VSlice [VStruct [VString ''System'', VUint 700],
                              VStruct [VString ''idle'', VUint 0]]))),
       [CoInitializeEx, CallCreateObject, CallQueryInterface, CallConnectServer [],
        CallExecQuery ''SELECT Name, HandleCount FROM Win32_Process '', GetCount,
        CallItemIndex 0, Release (Item 0), CallItemIndex 1, Release (Item 1),
        Release Result, Release Service, Release Wmi, Release Unknown, CoUninitialize])) \<and>
   loadLoop sampleEnv [''Name'' \<mapsto> GoString ''idle'']
     [Field ''Name'' True (Basic String), Field ''HandleCount'' True (Basic Uint32)] 1
     [VString ''idle'', VUint 0] None =
   ([VString ''idle'', VUint 0],
    Returns (Some (ErrFieldMismatch (Basic Uint32) ''HandleCount'' ''no such struct field'')))"
proof -
  let ?it = "[''Name'' \<mapsto> GoString ''idle''] :: item"
  let ?rs = "sampleResult 2 [Inr (process ''System'' 700), Inr ?it]"
  let ?items = "\<lambda>j::nat. if j = 0 then process ''System'' 700 else ?it"
  let ?errs = "\<lambda>j::nat. if j = 0 then None
     else Some (ErrFieldMismatch (Basic Uint32) ''HandleCount'' ''no such struct field'')"
  let ?fs = "[Field ''Name'' True (Basic String), Field ''HandleCount'' True (Basic Uint32)]"
  have S: "isStruct Win32_Process" by (simp add: Win32_Process_def)
  have recs: "ItemIndex ?rs (int j) = Inr (?items j) \<and>
              bindErr sampleEnv Win32_Process (?items j) = Returns (?errs j) \<and>
              \<not> isHard (?errs j)"
    if "j < 2" for j
  proof -
    have "j = 0 \<or> j = 1" using that by auto
    then show ?thesis by (auto simp: sampleResult_def itemsOf_def isHard_def run_simps)
  qed
  have some: "(1::nat) < 2" "?errs 1 \<noteq> None" by simp_all
  have field: "(1::nat) < length ?fs" "?fs ! 1 = Field ''HandleCount'' True (Basic Uint32)"
    "?it ''HandleCount'' = None" by simp_all
  show ?thesis
    using Query_appends_all_despite_mismatch [where S = Win32_Process
        and t = "Slice Win32_Process"
        and mat = multiArgTypeStruct and W = "sampleOle ?rs" and rs = ?rs and N = 2
        and items = ?items and errs = ?errs and E = sampleEnv and c = 2 and args = "[]"
        and xs = "[]" and q = "''SELECT Name, HandleCount FROM Win32_Process ''"
        and vs = "[VString ''idle'', VUint 0]" and efm = None and m = 1
        and src = ?it and n = "''HandleCount''" and fs = ?fs and i = 1 and T = "Basic Uint32",
        OF S _ _ _ _ _ _ _ recs some field]
    by (simp add: sampleOle_def sampleResult_def opened_def closed_def fetched_def run_simps
          upt_2)
qed

theorem mismatch_leaves_fields_unbound:
  "Query sampleEnv (sampleOle (sampleResult 1 [Inr (process ''System'' 700)]))
     ''SELECT Caption, HandleCount, Name FROM Win32_Process ''
     (Iface (Ptr (Slice Mixed)) (VPtr (Some (VSlice [])))) [] =
   (Returns (Some (ErrFieldMismatch (Basic Bool) ''HandleCount'' ''not an integer class'')),
    Iface (Ptr (Slice Mixed))
      (VPtr (Some (VSlice [VStruct [VPtr (Some (VString [])), VBool False, VString []]]))),
    [CoInitializeEx, CallCreateObject, CallQueryInterface, CallConnectServer [],
     CallExecQuery ''SELECT Caption, HandleCount, Name FROM Win32_Process '', GetCount,
     CallItemIndex 0, Release (Item 0),
     Release Result, Release Service, Release Wmi, Release Unknown, CoUninitialize]) \<and>
   process ''System'' 700 ''Name'' = Some (GoString ''System'') \<and>
   zero (Ptr (Basic String)) = VPtr None"
  by (simp add: query_simps Mixed_def)

text \<open>
  C4. Let the destination be valid, the session open and the query give \<open>N\<close> records.
  Let the positions before \<open>k\<close> be fetched and loaded with no error other than field
  mismatches, and let position \<open>k\<close> fail: either the fetch of the item fails, or
  \<open>loadEntity\<close> returns an error that is no field mismatch. Then \<open>Query\<close> returns
  that error, the slice is its former contents followed by exactly the \<open>k\<close> records
  of the positions before \<open>k\<close>, and the positions fetched are \<open>0, ..., k\<close> and no
  other.
\<close>

theorem Query_stops_at_hard_error:
  assumes S: "isStruct S"
    and shape: "(t = Slice S \<and> mat = multiArgTypeStruct) \<or>
                (t = Slice (Ptr S) \<and> mat = multiArgTypeStructPtr)"
    and session: "CreateObject W = None" "QueryInterface W = None"
      "ConnectServer W args = Inr srv" "ExecQuery srv q = Inr rs" "Count rs = Inr c"
    and count: "sint c = int N" and k: "k < N"
    and before: "\<And>j. j < k \<Longrightarrow> ItemIndex rs (int j) = Inr (items j) \<and>
                   bindErr E S (items j) = Returns (errs j) \<and> \<not> isHard (errs j)"
    and fails: "(\<exists>msg. ItemIndex rs (int k) = Inl msg \<and> e = OleError msg) \<or>
                (\<exists>it. ItemIndex rs (int k) = Inr it \<and> bindErr E S it = Returns (Some e) \<and>
                      \<not> isFieldMismatch e)"
  shows "case Query E W q (Iface (Ptr t) (VPtr (Some (VSlice xs)))) args of
           (r, d, cs) \<Rightarrow>
             r = Returns (Some e) \<and>
             d = Iface (Ptr t)
                   (VPtr (Some (VSlice (xs @ map (\<lambda>j. bound E mat S (items j)) [0..<k])))) \<and>
             filter isItemIndex cs = map (\<lambda>j. CallItemIndex (int j)) [0..<Suc k]"
proof -
  have kc: "int k < sint c" using k count by simp
  have run: "queryLoop E rs mat (Some S) (sint c) (int 0) (VSlice xs) None =
     (case queryLoop E rs mat (Some S) (sint c) (int k)
             (VSlice (xs @ map (\<lambda>j. bound E mat S (items j)) [0..<k]))
             (foldl assign None (map errs [0..<k])) of
        (r, dv, cs) \<Rightarrow> (r, dv, concat (map fetched [0..<k]) @ cs))"
    by (rule queryLoop_run) (use before kc in auto)
  from fails show ?thesis
  proof
    assume "\<exists>msg. ItemIndex rs (int k) = Inl msg \<and> e = OleError msg"
    then obtain msg where m: "ItemIndex rs (int k) = Inl msg" "e = OleError msg" by blast
    show ?thesis
      unfolding Query_run [OF S shape session]
      using run
      by (simp add: queryLoop_fetch_error [OF kc m(1)] m(2) filter_fetched filter_opened
            filter_closed)
  next
    assume "\<exists>it. ItemIndex rs (int k) = Inr it \<and> bindErr E S it = Returns (Some e) \<and>
                 \<not> isFieldMismatch e"
    then obtain it where m: "ItemIndex rs (int k) = Inr it" "bindErr E S it = Returns (Some e)"
      and h: "isHard (Some e)" by (auto simp: isHard_def)
    show ?thesis
      unfolding Query_run [OF S shape session]
      using run
      by (simp add: queryLoop_hard [OF kc m h] filter_fetched filter_opened filter_closed)
  qed
qed

theorem Query_stops_at_hard_error_witness:
  "case Query sampleEnv
          (sampleOle (sampleResult 3
             [Inr (process ''System'' 700), Inl ''RPC server unavailable'',
              Inr (process ''idle'' 3)]))
          ''SELECT Name, HandleCount FROM Win32_Process ''
          (Iface (Ptr (Slice (Ptr Win32_Process))) (VPtr (Some (VSlice [])))) [] of
     (r, d, cs) \<Rightarrow>
       r = Returns (Some (OleError ''RPC server unavailable'')) \<and>
       d = Iface (Ptr (Slice (Ptr Win32_Process)))
             (VPtr (Some (VSlice [VPtr (Some (VStruct [VString ''System'', VUint 700]))]))) \<and>
       filter isItemIndex cs = [CallItemIndex 0, CallItemIndex 1]"
proof -
  let ?rs = "sampleResult 3
     [Inr (process ''System'' 700), Inl ''RPC server unavailable'', Inr (process ''idle'' 3)]"
  have S: "isStruct Win32_Process" by (simp add: Win32_Process_def)
  have before: "ItemIndex ?rs (int j) = Inr (process ''System'' 700) \<and>
              bindErr sampleEnv Win32_Process (process ''System'' 700) = Returns None \<and>
              \<not> isHard None"
    if "j < 1" for j
    using that by (simp add: sampleResult_def itemsOf_def isHard_def run_simps)
  have fails: "(\<exists>msg. ItemIndex ?rs (int 1) = Inl msg \<and>
                  OleError ''RPC server unavailable'' = OleError msg) \<or>
      (\<exists>it. ItemIndex ?rs (int 1) = Inr it \<and>
          bindErr sampleEnv Win32_Process it = Returns (Some (OleError ''RPC server unavailable''))
          \<and> \<not> isFieldMismatch (OleError ''RPC server unavailable''))"
    by (simp add: sampleResult_def itemsOf_def)
  show ?thesis
    using Query_stops_at_hard_error [where S = Win32_Process and t = "Slice (Ptr Win32_Process)"
        and mat = multiArgTypeStructPtr and W = "sampleOle ?rs" and rs = ?rs and N = 3
        and k = 1 and items = "\<lambda>j. process ''System'' 700" and errs = "\<lambda>j. None"
        and E = sampleEnv and c = 3 and args = "[]" and xs = "[]"
        and e = "OleError ''RPC server unavailable''"
        and q = "''SELECT Name, HandleCount FROM Win32_Process ''",
        OF S _ _ _ _ _ _ _ _ before fails]
    by (simp add: sampleOle_def sampleResult_def run_simps upt_2)
qed



text \<open>
  C5, as the code has it. When no error other than field mismatches occurs, \<open>Query\<close>
  returns the mismatch of the last position that has one: a later mismatch replaces an
  earlier one.
\<close>

theorem Query_returns_last_mismatch:
  assumes S: "isStruct S"
    and shape: "(t = Slice S \<and> mat = multiArgTypeStruct) \<or>
                (t = Slice (Ptr S) \<and> mat = multiArgTypeStructPtr)"
    and session: "CreateObject W = None" "QueryInterface W = None"
      "ConnectServer W args = Inr srv" "ExecQuery srv q = Inr rs" "Count rs = Inr c"
    and count: "sint c = int N"
    and recs: "\<And>j. j < N \<Longrightarrow> ItemIndex rs (int j) = Inr (items j) \<and>
                   bindErr E S (items j) = Returns (errs j) \<and> \<not> isHard (errs j)"
    and last: "m < N" "errs m = Some e" "\<And>j. m < j \<Longrightarrow> j < N \<Longrightarrow> errs j = None"
  shows "fst (Query E W q (Iface (Ptr t) (VPtr (Some (VSlice xs)))) args) = Returns (Some e)"
proof -
  have run: "queryLoop E rs mat (Some S) (sint c) (int 0) (VSlice xs) None =
     (case queryLoop E rs mat (Some S) (sint c) (int N)
             (VSlice (xs @ map (\<lambda>j. bound E mat S (items j)) [0..<N]))
             (foldl assign None (map errs [0..<N])) of
        (r, dv, cs) \<Rightarrow> (r, dv, concat (map fetched [0..<N]) @ cs))"
    by (rule queryLoop_run) (use recs count in auto)
  have "\<forall>x\<in>set (map errs [Suc m..<N]). x = None" using last(3) by auto
  then have "foldl assign (Some e) (map errs [Suc m..<N]) = Some e"
    by (rule foldl_assign_None)
  then have agg: "foldl assign None (map errs [0..<N]) = Some e"
    by (simp add: upt_split [OF last(1)] last(2) assign_def)
  show ?thesis
    unfolding Query_run [OF S shape session]
    using run by (simp add: agg count queryLoop_end)
qed



theorem Query_returns_last_mismatch_witness:
  "fst (Query sampleEnv
          (sampleOle (sampleResult 2
             [Inr [''HandleCount'' \<mapsto> GoInt64 700], Inr [''Name'' \<mapsto> GoString ''idle'']]))
          ''SELECT Name, HandleCount FROM Win32_Process ''
          (Iface (Ptr (Slice Win32_Process)) (VPtr (Some (VSlice [])))) []) =
     Returns (Some (ErrFieldMismatch (Basic Uint32) ''HandleCount'' ''no such struct field''))"
proof -
  let ?a = "[''HandleCount'' \<mapsto> GoInt64 700] :: item"
  let ?b = "[''Name'' \<mapsto> GoString ''idle''] :: item"
  let ?rs = "sampleResult 2 [Inr ?a, Inr ?b]"
  let ?items = "\<lambda>j::nat. if j = 0 then ?a else ?b"
  let ?errs = "\<lambda>j::nat.
     if j = 0 then Some (ErrFieldMismatch (Basic String) ''Name'' ''no such struct field'')
     else Some (ErrFieldMismatch (Basic Uint32) ''HandleCount'' ''no such struct field'')"
  have S: "isStruct Win32_Process" by (simp add: Win32_Process_def)
  have recs: "ItemIndex ?rs (int j) = Inr (?items j) \<and>
              bindErr sampleEnv Win32_Process (?items j) = Returns (?errs j) \<and>
              \<not> isHard (?errs j)"
    if "j < 2" for j
  proof -
    have "j = 0 \<or> j = 1" using that by auto
    then show ?thesis by (auto simp: sampleResult_def itemsOf_def isHard_def run_simps)
  qed
  have last: "(1::nat) < 2"
    "?errs 1 = Some (ErrFieldMismatch (Basic Uint32) ''HandleCount'' ''no such struct field'')"
    "\<And>j. 1 < j \<Longrightarrow> j < 2 \<Longrightarrow> ?errs j = None"
    by simp_all
  show ?thesis
    using Query_returns_last_mismatch [where S = Win32_Process
        and t = "Slice Win32_Process"
        and mat = multiArgTypeStruct and W = "sampleOle ?rs" and rs = ?rs and N = 2
        and items = ?items and errs = ?errs and E = sampleEnv and c = 2 and args = "[]"
        and xs = "[]" and q = "''SELECT Name, HandleCount FROM Win32_Process ''" and m = 1,
        OF S _ _ _ _ _ _ _ recs last]
    by (simp add: sampleOle_def sampleResult_def)
qed

theorem first_mismatch_is_replaced:
  "bindErr sampleEnv Win32_Process [''HandleCount'' \<mapsto> GoInt64 700] =
     Returns (Some (ErrFieldMismatch (Basic String) ''Name'' ''no such struct field'')) \<and>
   bindErr sampleEnv Win32_Process [''Name'' \<mapsto> GoString ''idle''] =
     Returns (Some (ErrFieldMismatch (Basic Uint32) ''HandleCount'' ''no such struct field'')) \<and>
   fst (Query sampleEnv
          (sampleOle (sampleResult 2
             [Inr [''HandleCount'' \<mapsto> GoInt64 700], Inr [''Name'' \<mapsto> GoString ''idle'']]))
          ''SELECT Name, HandleCount FROM Win32_Process ''
          (Iface (Ptr (Slice Win32_Process)) (VPtr (Some (VSlice [])))) []) =
     Returns (Some (ErrFieldMismatch (Basic Uint32) ''HandleCount'' ''no such struct field''))"
  by (simp add: query_simps)

text \<open>
  C3. A destination whose type is not a pointer to a slice of a struct type or of
  pointers to a struct type makes \<open>Query\<close> return \<open>ErrInvalidEntityType\<close> with
  no call made on the OLE layer and the destination as it was.
\<close>

theorem Query_rejects_invalid_shape:
  assumes "\<not> validShape dst"
  shows "Query E W q dst args = (Returns (Some ErrInvalidEntityType), dst, [])"
proof (cases dst rule: validShape.cases)
  case (1 p n fs v)
  then show ?thesis using assms by simp
next
  case (2 p n fs v)
  then show ?thesis using assms by simp
qed (simp_all add: Query_def split: govalue.splits option.splits)

theorem Query_rejects_invalid_shape_witness:
  "\<not> validShape (Iface (Ptr (Slice (Basic String))) (VPtr (Some (VSlice [VString ''a''])))) \<and>
   Query sampleEnv (sampleOle (sampleResult 1 [Inr (process ''System'' 700)]))
     ''SELECT Name FROM Win32_Process ''
     (Iface (Ptr (Slice (Basic String))) (VPtr (Some (VSlice [VString ''a''])))) [] =
   (Returns (Some ErrInvalidEntityType),
    Iface (Ptr (Slice (Basic String))) (VPtr (Some (VSlice [VString ''a'']))), [])"
  using Query_rejects_invalid_shape
    [of "Iface (Ptr (Slice (Basic String))) (VPtr (Some (VSlice [VString ''a''])))" sampleEnv
      "sampleOle (sampleResult 1 [Inr (process ''System'' 700)])"
      "''SELECT Name FROM Win32_Process ''" "[]"]
  by simp

lemma queryLoop_extends:
  "\<exists>ys. fst (snd (queryLoop E rs mat et count i (VSlice xs) efm)) = VSlice (xs @ ys)"
proof (induction E rs mat et count i "VSlice xs" efm arbitrary: xs rule: queryLoop.induct)
  case (1 E result mat elemType count i efm)
  show ?case
  proof (cases "i < count")
    case False
    then show ?thesis by (simp add: queryLoop_end)
  next
    case True
    show ?thesis
    proof (cases "ItemIndex result i")
      case (Inl e)
      then show ?thesis using True by (simp add: queryLoop_next)
    next
      case (Inr item)
      show ?thesis
      proof (cases elemType)
        case None
        then show ?thesis using True Inr by (simp add: queryLoop_next)
      next
        case (Some et)
        obtain ev r where le: "loadEntity E et (zero et) item = (ev, r)" by force
        show ?thesis
        proof (cases r)
          case (Panics msg)
          then show ?thesis using True Inr Some le by (simp add: queryLoop_next)
        next
          case (Returns err)
          show ?thesis
          proof (cases "isHard err")
            case hard: True
            then show ?thesis using True Inr Some le Returns by (simp add: queryLoop_next)
          next
            case soft: False
            have "\<exists>ys. fst (snd (queryLoop E result mat elemType count (i + 1)
                      (VSlice (xs @ [elemOf mat ev])) (assign efm err))) =
                    VSlice ((xs @ [elemOf mat ev]) @ ys)"
              by (rule "1.hyps" [OF True Inr Some le [symmetric] Returns soft]) simp
            then obtain ys where "fst (snd (queryLoop E result mat elemType count (i + 1)
                      (VSlice (xs @ [elemOf mat ev])) (assign efm err))) =
                    VSlice (xs @ elemOf mat ev # ys)" by auto
            then show ?thesis
              using True Inr Some le Returns soft
              by (subst queryLoop_next) (auto split: prod.splits)
          qed
        qed
      qed
    qed
  qed
qed

text \<open>
  C10. Whatever the type of the slice that \<open>dst\<close> points to, whatever the OLE layer
  answers and however \<open>Query\<close> ends (nil, a field mismatch, any other error, a panic),
  \<open>dst\<close> afterwards points to a slice that begins with the elements it held before.
\<close>

theorem Query_keeps_prior_elements:
  "\<exists>ys. fst (snd (Query E W q (Iface (Ptr (Slice T)) (VPtr (Some (VSlice xs)))) args)) =
          Iface (Ptr (Slice T)) (VPtr (Some (VSlice (xs @ ys))))"
proof -
  have loop: "\<exists>ys. a = VSlice (xs @ ys)"
    if "queryLoop E rs mat et c 0 (VSlice xs) None = (r, a, b)" for rs mat et c r a b
    using queryLoop_extends [of E rs mat et c 0 xs None] that by simp
  show ?thesis
    unfolding Query_def
    by (auto split: prod.splits multiArgType.splits option.splits sum.splits dest: loop)
qed

theorem Query_keeps_prior_elements_witness:
  "\<exists>ys. fst (snd (Query sampleEnv
                      (sampleOle (sampleResult 2 [Inr (process ''idle'' 3), Inl ''Invalid index'']))
                      ''SELECT Name, HandleCount FROM Win32_Process ''
                      (Iface (Ptr (Slice Win32_Process))
                         (VPtr (Some (VSlice [VStruct [VString ''System'', VUint 700]]))))
                      [])) =
          Iface (Ptr (Slice Win32_Process))
            (VPtr (Some (VSlice ([VStruct [VString ''System'', VUint 700]] @ ys))))"
  by (rule Query_keeps_prior_elements)

section \<open>The claims about loadEntity\<close>

text \<open>
  C6, as the code has it. When the loop of \<open>loadEntity\<close> reaches a field that is not
  settable (an unexported field that is no pointer), \<open>loadEntity\<close> returns the
  mismatch \<open>CanSet() is false\<close> at once: the struct stays as it is at that moment, so
  this field and every later one are left unbound, and a mismatch noted for an earlier
  field is dropped in favour of this one.
\<close>

theorem loadLoop_returns_at_unsettable_field:
  assumes "i < length fs" "fs ! i = Field n False T" "\<not> isPtr T"
  shows "loadLoop E src fs i vs efm =
           (vs, Returns (Some (ErrFieldMismatch T n ''CanSet() is false'')))"
  using assms by (cases T) (simp_all add: loadLoop_next loadField_def store_def)

theorem loadLoop_returns_at_unsettable_field_witness:
  "loadLoop sampleEnv (process ''System'' 700)
     [Field ''Name'' True (Basic String), Field ''secret'' False (Basic String),
      Field ''HandleCount'' True (Basic Uint32)] 1
     [VString ''System'', VString [], VUint 0] None =
   ([VString ''System'', VString [], VUint 0],
    Returns (Some (ErrFieldMismatch (Basic String) ''secret'' ''CanSet() is false'')))"
  using loadLoop_returns_at_unsettable_field
    [of 1 "[Field ''Name'' True (Basic String), Field ''secret'' False (Basic String),
            Field ''HandleCount'' True (Basic Uint32)]" "''secret''" "Basic String"
        sampleEnv "process ''System'' 700" "[VString ''System'', VString [], VUint 0]" None]
  by simp

theorem unsettable_field_ends_binding:
  "loadEntity sampleEnv Hidden (zero Hidden) (process ''System'' 700) =
     (VStruct [VString ''System'', VString [], VUint 0],
      Returns (Some (ErrFieldMismatch (Basic String) ''secret'' ''CanSet() is false''))) \<and>
   process ''System'' 700 ''HandleCount'' = Some (GoInt64 700) \<and>
   fst (loadEntity sampleEnv Win32_Process (zero Win32_Process) (process ''System'' 700)) =
     VStruct [VString ''System'', VUint 700]"
  by (simp add: Hidden_def run_simps)

text \<open>
  C7, as the code has it. For a text value bound into a \<open>time.Time\<close> field (or a
  field that points to one): a literal of exactly 25 characters gets a \<open>0\<close> inserted
  at offset 22 and the 26 characters are parsed against the layout; a literal of any other
  length, 24 included, is parsed as it is. A parse failure makes \<open>loadEntity\<close> return
  the parser's error, which is no field mismatch, so that it ends \<open>Query\<close>; a parsed
  time is stored and the loop goes on.
\<close>

theorem time_literal_gets_zero_at_25:
  assumes "i < length fs" "fs ! i = Field n True T"
    and "T = timeType E \<or> T = Ptr (timeType E)" "isStruct (timeType E)"
    and "src n = Some (GoString sv)"
    and "sv' = (if length sv = 25 then take 22 sv @ ''0'' @ drop 22 sv else sv)"
  shows "loadLoop E src fs i vs efm =
           (case Parse E ''20060102150405.000000-0700'' sv' of
              Inl e \<Rightarrow>
                (if isPtr T then vs[i := VPtr (Some (zero (timeType E)))] else vs,
                 Returns (Some (ParseError e)))
            | Inr t \<Rightarrow>
                loadLoop E src fs (Suc i) (vs[i := if isPtr T then VPtr (Some t) else t]) efm) \<and>
         (\<forall>e. isHard (Some (ParseError e)))"
proof -
  obtain p nm tfs where tt: "timeType E = Struct p nm tfs"
    using assms(4) by (cases "timeType E") auto
  show ?thesis
    using assms(1,2,3,5,6)
    by (auto simp: tt loadLoop_next loadField_def store_def isHard_def split: sum.splits)
qed

theorem time_literal_gets_zero_at_25_witness:
  "loadLoop sampleEnv [''InstallDate'' \<mapsto> GoString ''20130823104927.000000-420'']
     [Field ''InstallDate'' True (timeType sampleEnv)] 0 [zero (timeType sampleEnv)] None =
   ([VStruct [VUint 0, VInt 20130823104927, VPtr None]], Returns None) \<and>
   (\<forall>e. isHard (Some (ParseError e)))"
  using time_literal_gets_zero_at_25
    [of 0 "[Field ''InstallDate'' True (timeType sampleEnv)]" "''InstallDate''"
        "timeType sampleEnv" sampleEnv
        "[''InstallDate'' \<mapsto> GoString ''20130823104927.000000-420'']"
        "''20130823104927.000000-420''" "''20130823104927.000000-0420''"
        "[zero (timeType sampleEnv)]" None]
  by (simp add: sampleEnv_def sampleParse_def shape_def isDigit_def loadLoop_stop)

theorem literal_of_25_is_padded_and_24_is_not:
  "length ''20130823104927.000000-420'' = 25 \<and>
   Parse sampleEnv ''20060102150405.000000-0700'' ''20130823104927.000000-420'' =
     Inl ''parsing time 20130823104927.000000-420'' \<and>
   loadEntity sampleEnv Win32_OperatingSystem (zero Win32_OperatingSystem)
     [''InstallDate'' \<mapsto> GoString ''20130823104927.000000-420''] =
     (VStruct [VStruct [VUint 0, VInt 20130823104927, VPtr None]], Returns None) \<and>
   length ''20130823104927.00000-420'' = 24 \<and>
   take 22 ''20130823104927.00000-420'' @ ''0'' @ drop 22 ''20130823104927.00000-420'' =
     ''20130823104927.00000-4020'' \<and>
   loadEntity sampleEnv Win32_OperatingSystem (zero Win32_OperatingSystem)
     [''InstallDate'' \<mapsto> GoString ''20130823104927.00000-420''] =
     (VStruct [VStruct [VUint 0, VInt 0, VPtr None]],
      Returns (Some (ParseError ''parsing time 20130823104927.00000-420'')))"
  by (simp add: Win32_OperatingSystem_def run_simps sampleParse_def shape_def isDigit_def)

text \<open>
  C8, as the code has it. An exported pointer field is first set to point to a fresh zero
  value of its element type (line 186). When the source value is nil, that pointer stays:
  the field is not nil afterwards. \<open>errFieldMismatch\<close> is not assigned and the loop
  goes on with the next field. (On an unexported pointer field the \<open>Set\<close> of line 186
  panics before any source value is read.)
\<close>

theorem nil_value_leaves_fresh_pointer:
  assumes "i < length fs" "fs ! i = Field n True (Ptr T)" "src n = Some GoNil"
  shows "loadLoop E src fs i vs efm =
           loadLoop E src fs (Suc i) (vs[i := VPtr (Some (zero T))]) efm"
  using assms by (simp add: loadLoop_next loadField_def store_def)

theorem nil_value_leaves_fresh_pointer_witness:
  "loadLoop sampleEnv [''Name'' \<mapsto> GoString ''System'', ''Caption'' \<mapsto> GoNil]
     [Field ''Name'' True (Basic String), Field ''Caption'' True (Ptr (Basic String))] 1
     [VString ''System'', VPtr None] None =
   ([VString ''System'', VPtr (Some (VString []))], Returns None)"
  using nil_value_leaves_fresh_pointer
    [of 1 "[Field ''Name'' True (Basic String), Field ''Caption'' True (Ptr (Basic String))]"
        "''Caption''" "Basic String" "[''Name'' \<mapsto> GoString ''System'', ''Caption'' \<mapsto> GoNil]"
        sampleEnv "[VString ''System'', VPtr None]" None]
  by (simp add: loadLoop_stop)

theorem nil_value_pointer_is_not_nil:
  "loadEntity sampleEnv Optional (zero Optional)
     [''Name'' \<mapsto> GoString ''System'', ''Caption'' \<mapsto> GoNil] =
     (VStruct [VString ''System'', VPtr (Some (VString []))], Returns None) \<and>
   zero Optional = VStruct [VString [], VPtr None]"
  by (simp add: Optional_def run_simps)

section \<open>The claim about CreateQuery\<close>

text \<open>
  C9. For a struct type named \<open>Win32_Process\<close> whose fields are \<open>Name\<close> and
  \<open>HandleCount\<close> in this order, given as a value, as a slice, or as a pointer to
  either, and the empty predicate, \<open>CreateQuery\<close> returns exactly
  \<open>SELECT Name, HandleCount FROM Win32_Process\<close> followed by one space. For any
  struct type it lists the field names in declaration order, joined by a comma and a
  space, then the type's name, a space and the predicate as given. Whenever the type it
  resolves (the type of the argument after one indirection, or the element type if that
  is a slice) is no struct, it returns the empty string.
\<close>

theorem CreateQuery_lists_fields:
  fixes S :: gotype and p :: string and x1 x2 :: bool and t1 t2 :: gotype
  defines "S \<equiv> Struct p ''Win32_Process'' [Field ''Name'' x1 t1, Field ''HandleCount'' x2 t2]"
  shows "CreateQuery (Iface S v) [] = Returns ''SELECT Name, HandleCount FROM Win32_Process '' \<and>
         CreateQuery (Iface (Slice S) v) [] =
           Returns ''SELECT Name, HandleCount FROM Win32_Process '' \<and>
         CreateQuery (Iface (Ptr S) (VPtr (Some v))) [] =
           Returns ''SELECT Name, HandleCount FROM Win32_Process '' \<and>
         CreateQuery (Iface (Ptr (Slice S)) (VPtr (Some v))) [] =
           Returns ''SELECT Name, HandleCount FROM Win32_Process '' \<and>
         CreateQuery (Iface (Struct p' n fs) v) where' =
           Returns (''SELECT '' @ Join (map Name fs) '', '' @ '' FROM '' @ n @ '' '' @ where') \<and>
         CreateQuery (Iface (Slice (Struct p' n fs)) v) where' =
           Returns (''SELECT '' @ Join (map Name fs) '', '' @ '' FROM '' @ n @ '' '' @ where') \<and>
         (\<forall>src st u. Indirect src = Iface st u \<and>
              \<not> isStruct (case st of Slice el \<Rightarrow> el | _ \<Rightarrow> st) \<longrightarrow>
              CreateQuery src where' = Returns [])"
proof -
  have none: "CreateQuery src where' = Returns []"
    if "Indirect src = Iface st u" "\<not> isStruct (case st of Slice el \<Rightarrow> el | _ \<Rightarrow> st)"
    for src st u
  proof (cases st)
    case (Slice el)
    then show ?thesis using that by (cases el) (simp_all add: CreateQuery_def)
  qed (use that in \<open>simp_all add: CreateQuery_def\<close>)
  have rest: "\<forall>src st u. Indirect src = Iface st u \<and>
              \<not> isStruct (case st of Slice el \<Rightarrow> el | _ \<Rightarrow> st) \<longrightarrow>
              CreateQuery src where' = Returns []"
    using none by blast
  have fmt: "CreateQuery (Iface (Struct p' n fs) v) where' =
           Returns (''SELECT '' @ Join (map Name fs) '', '' @ '' FROM '' @ n @ '' '' @ where')"
    "CreateQuery (Iface (Slice (Struct p' n fs)) v) where' =
           Returns (''SELECT '' @ Join (map Name fs) '', '' @ '' FROM '' @ n @ '' '' @ where')"
    by (simp_all add: CreateQuery_def)
  have ex: "CreateQuery (Iface S v) [] = Returns ''SELECT Name, HandleCount FROM Win32_Process ''"
    "CreateQuery (Iface (Slice S) v) [] =
           Returns ''SELECT Name, HandleCount FROM Win32_Process ''"
    "CreateQuery (Iface (Ptr S) (VPtr (Some v))) [] =
           Returns ''SELECT Name, HandleCount FROM Win32_Process ''"
    "CreateQuery (Iface (Ptr (Slice S)) (VPtr (Some v))) [] =
           Returns ''SELECT Name, HandleCount FROM Win32_Process ''"
    by (simp_all add: S_def CreateQuery_def)
  from ex fmt rest show ?thesis by (intro conjI)
qed

theorem CreateQuery_lists_fields_witness:
  "CreateQuery (Iface (Ptr (Slice Win32_Process)) (VPtr (Some (VSlice [])))) [] =
     Returns ''SELECT Name, HandleCount FROM Win32_Process '' \<and>
   CreateQuery (Iface Win32_Process (zero Win32_Process)) ''WHERE HandleCount > 100'' =
     Returns ''SELECT Name, HandleCount FROM Win32_Process WHERE HandleCount > 100'' \<and>
   CreateQuery (Iface (Ptr (Slice (Ptr Win32_Process))) (VPtr (Some (VSlice [])))) [] =
     Returns []"
proof -
  note inst = CreateQuery_lists_fields
    [where p = "''main''" and ?x1.0 = True and ?t1.0 = "Basic String" and ?x2.0 = True
       and ?t2.0 = "Basic Uint32" and v = "zero Win32_Process" and p' = "''main''"
       and n = "''Win32_Process''" and where' = "''WHERE HandleCount > 100''"
       and fs = "[Field ''Name'' True (Basic String), Field ''HandleCount'' True (Basic Uint32)]"]
  have a: "CreateQuery (Iface (Ptr (Slice Win32_Process)) (VPtr (Some (VSlice [])))) [] =
     Returns ''SELECT Name, HandleCount FROM Win32_Process ''"
    using CreateQuery_lists_fields
      [where p = "''main''" and ?x1.0 = True and ?t1.0 = "Basic String" and ?x2.0 = True
         and ?t2.0 = "Basic Uint32" and v = "VSlice []"]
    by (simp add: Win32_Process_def)
  have b: "CreateQuery (Iface Win32_Process (zero Win32_Process)) ''WHERE HandleCount > 100'' =
     Returns ''SELECT Name, HandleCount FROM Win32_Process WHERE HandleCount > 100''"
    using inst by (simp add: Win32_Process_def)
  have c: "CreateQuery (Iface (Ptr (Slice (Ptr Win32_Process))) (VPtr (Some (VSlice [])))) [] =
     Returns []"
    using CreateQuery_lists_fields
    [where where' = "[]"]
    by (simp add: Win32_Process_def)
  from a b c show ?thesis by simp
qed

end
